theory Spec2Isabelle
  imports Main "HOL-Library.Word"
begin

section \<open>The Empower agent of srsenb (srsenb/src/empoweragent.cc)\<close>

text \<open>
  The agent keeps a TCP session with a controller. Its thread runs \<open>Agent::mainLoop\<close>,
  an endless loop that in every iteration checks the connection, reads and answers at
  most one message, or performs the periodic tasks (sending a HELLO request).

  The transport (class \<open>IO\<close>), the codec (\<open>MessageDecoder\<close>, \<open>MessageEncoder\<close>, the
  TLV classes) and the network address class come from libraries outside the
  repository. The embedding keeps them at their interface: every call of the loop on
  the transport is recorded, in order, in a trace of events, and what the transport
  answers to the calls of one iteration is an input of that iteration.

  The source throws no exception itself, and has one handler, around the whole loop
  (lines 132 and 259 to 261). The loop is embedded twice: \<open>iteration\<close>, \<open>iterations\<close>
  and \<open>mainLoop\<close> give what it does as long as every call on the libraries returns;
  \<open>iteration_exn\<close>, \<open>iterations_exn\<close> and \<open>mainLoop_exn\<close> add the exceptions that the
  calls may throw and the handler, and agree with the former when nothing is thrown.
\<close>

subsection \<open>Protocol vocabulary\<close>

type_synonym byte = "8 word"

text \<open>
  Modelled from the spec: the enumeration \<open>EntityClass\<close> is declared in the protocol
  library's header. The source names \<open>HELLO_SERVICE\<close> and \<open>CAPABILITIES_SERVICE\<close>;
  the spec calls the set extensible, so every further enumerator is \<open>ENTITY_CLASS_OTHER\<close>
  with its code.
\<close>

datatype EntityClass = HELLO_SERVICE | CAPABILITIES_SERVICE | ENTITY_CLASS_OTHER nat

text \<open>
  Modelled from the spec: the enumeration \<open>MessageClass\<close> is declared in the protocol
  library's header. The source names \<open>REQUEST_SET\<close> and \<open>RESPONSE_SUCCESS\<close>; the spec
  speaks of request classes and response classes, so the further enumerators are taken
  as \<open>REQUEST_OTHER\<close> and \<open>RESPONSE_OTHER\<close> with their codes.
\<close>

datatype MessageClass = REQUEST_SET | REQUEST_OTHER nat | RESPONSE_SUCCESS | RESPONSE_OTHER nat

fun isRequestClass :: "MessageClass \<Rightarrow> bool" where
  "isRequestClass REQUEST_SET = True"
| "isRequestClass (REQUEST_OTHER n) = True"
| "isRequestClass RESPONSE_SUCCESS = False"
| "isRequestClass (RESPONSE_OTHER n) = False"

fun isResponseClass :: "MessageClass \<Rightarrow> bool" where
  "isResponseClass REQUEST_SET = False"
| "isResponseClass (REQUEST_OTHER n) = False"
| "isResponseClass RESPONSE_SUCCESS = True"
| "isResponseClass (RESPONSE_OTHER n) = True"

text \<open>
  The fields of the common header that the agent sets or reads: the sequence number
  (unsigned 32 bit), the element id (unsigned 64 bit) and the two classes.
\<close>

record CommonHeader =
  sequence :: "32 word"
  elementId :: "64 word"
  messageClass :: MessageClass
  entityClass :: EntityClass

text \<open>
  The two TLVs the agent builds, with the values handed to their setters:
  \<open>TLVCell\<close> takes pci, nPrb, dlEarfcn and ulEarfcn (in this order), and
  \<open>TLVPeriodicityMs\<close> takes the milliseconds.
\<close>

datatype TLV =
    TLVCell "16 word" "8 word" "32 word" "32 word"
  | TLVPeriodicityMs "32 word"

text \<open>
  A message in the encoder: its header and the TLVs added so far. The byte layout
  that \<open>MessageEncoder::data\<close> produces belongs to the codec.
\<close>

record Message =
  header :: CommonHeader
  tlvs :: "TLV list"

text \<open>
  \<open>MessageEncoder messageEncoder(writeBuffer)\<close> starts a message with no TLV. The
  four header fields above are all set before the message is sent, so the values they
  have in a fresh encoder never reach the transport.
\<close>

definition MessageEncoder :: Message where
  "MessageEncoder =
     \<lparr>header = \<lparr>CommonHeader.sequence = 0, elementId = 0,
                 messageClass = REQUEST_SET, entityClass = HELLO_SERVICE\<rparr>,
      tlvs = []\<rparr>"

definition add :: "TLV \<Rightarrow> Message \<Rightarrow> Message" where
  "add tlv m = m\<lparr>tlvs := tlvs m @ [tlv]\<rparr>"

subsection \<open>The agent's private attributes\<close>

type_synonym IPv4Address = "32 word"

text \<open>
  \<open>struct Agent::PrivateBits\<close>. The thread identifier is \<open>None\<close> as long as no
  thread has been created.
\<close>

record PrivateBits =
  agentThread :: "nat option"
  controllerAddress :: IPv4Address
  controllerPort :: "16 word"
  delayms :: "32 word"
  pci :: "16 word"
  dlEarfcn :: "32 word"
  ulEarfcn :: "32 word"
  nPrb :: "8 word"
  enbId :: "32 word"
  sequence :: "32 word"

text \<open>
  Modelled from the spec: \<open>srsenb::all_args_t\<close> is declared in srsenb/hdr/enb.h, which
  is not among the sources. Only the fields that \<open>Agent::init\<close> reads are kept; the
  numeric ones are unsigned 32 bit, apart from the TCP port.
\<close>

record empoweragent_args_t =
  controller_addr :: string
  controller_port :: "16 word"
  delayms :: "32 word"

record enb_args_t =
  pci :: "32 word"
  dl_earfcn :: "32 word"
  ul_earfcn :: "32 word"
  n_prb :: "32 word"

record s1ap_args_t =
  enb_id :: "32 word"

record stack_args_t =
  s1ap :: s1ap_args_t

record all_args_t =
  empoweragent :: empoweragent_args_t
  enb :: enb_args_t
  stack :: stack_args_t

subsection \<open>Events\<close>

text \<open>What is streamed to \<open>std::cout\<close> or \<open>std::cerr\<close> in one statement.\<close>

datatype log_item = Str string | Buf "byte list" | Num nat | Flag bool

text \<open>
  The calls on the transport, each with the value it returned, and the log lines.
  \<open>io_delay\<close> is the getter \<open>io.delay()\<close>, \<open>io_setDelay\<close> the setter \<open>io.delay(ms)\<close>;
  \<open>io_writeMessage\<close> carries the message handed over and the byte count returned.
\<close>

datatype event =
    io_address IPv4Address
  | io_port "16 word"
  | io_setDelay "32 word"
  | io_makeMessageBuffer
  | io_isConnectionClosed bool
  | io_openSocket
  | io_sleep
  | io_isDataAvailable bool
  | io_readMessage "byte list"
  | io_delay "32 word"
  | io_writeMessage Message nat
  | std_cout "log_item list"
  | std_cerr "log_item list"

definition nl :: string where
  "nl = [CHR 0x0A]"

text \<open>The messages written, the buffers read and the number of calls of one kind.\<close>

fun sent :: "event list \<Rightarrow> Message list" where
  "sent [] = []"
| "sent (io_writeMessage m len # es) = m # sent es"
| "sent (e # es) = sent es"

fun received :: "event list \<Rightarrow> byte list list" where
  "received [] = []"
| "received (io_readMessage b # es) = b # received es"
| "received (e # es) = received es"

definition calls :: "event \<Rightarrow> event list \<Rightarrow> nat" where
  "calls e es = count_list es e"

text \<open>
  What the transport answers during one iteration of the loop, one field for each
  call that returns a value (with the line of the call):
  \<open>closedAtEntry\<close> (143) and \<open>closedAtRetest\<close> (149) for the two connection checks,
  \<open>dataAvailable\<close> (157), \<open>messageBuffer\<close> for what \<open>readMessage\<close> returns (167),
  \<open>closedAtLog\<close> (226) and \<open>closedAtSend\<close> (228) for the checks of the periodic tasks,
  \<open>currentDelay\<close> for \<open>io.delay()\<close> (235) and \<open>written\<close> for the byte count that
  \<open>writeMessage\<close> returns (209, 248).
\<close>

record Answers =
  closedAtEntry :: bool
  closedAtRetest :: bool
  dataAvailable :: bool
  messageBuffer :: "byte list"
  closedAtLog :: bool
  closedAtSend :: bool
  currentDelay :: "32 word"
  written :: nat

subsection \<open>Initialisation and start\<close>

text \<open>
  \<open>Agent::init\<close>. The constructor \<open>NetworkLib::IPv4Address(string)\<close> is a parameter:
  it gives the address, or \<open>Inl what\<close> when it throws a \<open>std::exception\<close> with that
  message. The other statements copy integers, narrowing pci and n_prb. The result is
  \<open>True\<close> when an error occurred.
\<close>

definition init ::
  "(string \<Rightarrow> string + IPv4Address) \<Rightarrow> all_args_t \<Rightarrow> PrivateBits
     \<Rightarrow> bool \<times> event list \<times> PrivateBits" where
  "init IPv4Address_of all_args bits =
     (case IPv4Address_of (controller_addr (empoweragent all_args)) of
        Inl what \<Rightarrow>
          (True,
           [std_cerr [Str ''AGENT: *** caught exception while initializing Empower agent: '',
                      Str what, Str nl]],
           bits)
      | Inr a \<Rightarrow>
          (False, [],
           bits\<lparr>controllerAddress := a,
                controllerPort := controller_port (empoweragent all_args),
                PrivateBits.delayms := empoweragent_args_t.delayms (empoweragent all_args),
                PrivateBits.pci := ucast (enb_args_t.pci (enb all_args)),
                dlEarfcn := dl_earfcn (enb all_args),
                ulEarfcn := ul_earfcn (enb all_args),
                nPrb := ucast (n_prb (enb all_args)),
                enbId := enb_id (s1ap (stack all_args)),
                PrivateBits.sequence := 1\<rparr>))"


subsection \<open>Stamping a header\<close>

text \<open>
  \<open>Agent::fillHeader\<close>: writes the current sequence number and the eNodeB identifier,
  widened to 64 bit, into the header, then increments the sequence number.
\<close>

definition fillHeader :: "CommonHeader \<Rightarrow> PrivateBits \<Rightarrow> CommonHeader \<times> PrivateBits" where
  "fillHeader headerEncoder bits =
     (headerEncoder\<lparr>CommonHeader.sequence := PrivateBits.sequence bits,
                    elementId := ucast (enbId bits)\<rparr>,
      bits\<lparr>PrivateBits.sequence := PrivateBits.sequence bits + 1\<rparr>)"

subsection \<open>The main loop\<close>

text \<open>
  Lines 178 to 218: the switch on the entity class of a decoded message. \<open>len\<close> is
  the byte count that \<open>writeMessage\<close> returns.
\<close>

definition dispatch :: "nat \<Rightarrow> CommonHeader \<Rightarrow> PrivateBits \<Rightarrow> event list \<times> PrivateBits" where
  "dispatch len hdr bits =
     (case entityClass hdr of
        HELLO_SERVICE \<Rightarrow>
          ([std_cout [Str (''AGENT: got a REPLY for HELLO_SERVICE (discarded)'' @ nl)]], bits)
      | CAPABILITIES_SERVICE \<Rightarrow>
          (let messageEncoder = MessageEncoder;
               (h, bits') = fillHeader (header messageEncoder) bits;
               messageEncoder = messageEncoder
                 \<lparr>header := h\<lparr>messageClass := RESPONSE_SUCCESS,
                               entityClass := CAPABILITIES_SERVICE\<rparr>\<rparr>;
               tlvCell = TLVCell (PrivateBits.pci bits') (nPrb bits') (dlEarfcn bits') (ulEarfcn bits');
               messageEncoder = add tlvCell messageEncoder
           in ([std_cout [Str (''AGENT: got a REQUEST for CAPABILITIES_SERVICE (discarded)'' @ nl)],
                io_writeMessage messageEncoder len,
                std_cout [Str ''AGENT: sent RESPONSE for CAPABILITIES_SERVICE ('', Num len,
                          Str ('' bytes)'' @ nl)]],
               bits'))
      | ENTITY_CLASS_OTHER n \<Rightarrow>
          ([std_cerr [Str (''AGENT: *** got unexpected message class'' @ nl)]], bits))"

text \<open>
  Lines 140 to 163: the connection check. The result is \<open>performPeriodicTasks\<close>,
  \<open>dataIsAvailable\<close> and the calls made.
\<close>

definition checkConnection :: "Answers \<Rightarrow> bool \<times> bool \<times> event list" where
  "checkConnection a =
     (let opened = io_isConnectionClosed (closedAtEntry a)
                     # (if closedAtEntry a then [io_openSocket] else []);
          retest = [io_isConnectionClosed (closedAtRetest a)]
      in if closedAtRetest a then (True, False, opened @ retest @ [io_sleep])
         else (\<not> dataAvailable a, dataAvailable a,
               opened @ retest @ [io_isDataAvailable (dataAvailable a)]))"

text \<open>
  Lines 166 to 220: reading one message. \<open>decode\<close> stands for \<open>MessageDecoder\<close>: it
  gives the header of the message, or \<open>None\<close> when \<open>isFailure()\<close> holds.
\<close>

definition readAndDispatch ::
  "(byte list \<Rightarrow> CommonHeader option) \<Rightarrow> Answers \<Rightarrow> PrivateBits \<Rightarrow> event list \<times> PrivateBits" where
  "readAndDispatch decode a bits =
     (let buf = messageBuffer a
      in if buf \<noteq> [] then
           (let logged = [io_readMessage buf,
                          std_cout [Str (''AGENT: received message'' @ nl), Buf buf]]
            in case decode buf of
                 Some hdr \<Rightarrow>
                   (let (es, bits') = dispatch (written a) hdr bits in (logged @ es, bits'))
               | None \<Rightarrow> (logged, bits))
         else ([io_readMessage buf], bits))"

text \<open>Lines 223 to 251: the periodic tasks.\<close>

definition periodicTasks :: "Answers \<Rightarrow> PrivateBits \<Rightarrow> event list \<times> PrivateBits" where
  "periodicTasks a bits =
     (let logged = [io_isConnectionClosed (closedAtLog a),
                    std_cout [Str ''AGENT: waiting for messages... (isConnectionClosed() is '',
                              Flag (closedAtLog a), Str ('')'' @ nl)],
                    io_isConnectionClosed (closedAtSend a)]
      in if \<not> closedAtSend a then
           (let tlvPeriodicity = TLVPeriodicityMs (currentDelay a);
                messageEncoder = MessageEncoder;
                (h, bits') = fillHeader (header messageEncoder) bits;
                messageEncoder = messageEncoder
                  \<lparr>header := h\<lparr>messageClass := REQUEST_SET, entityClass := HELLO_SERVICE\<rparr>\<rparr>;
                messageEncoder = add tlvPeriodicity messageEncoder
            in (logged @
                [io_delay (currentDelay a),
                 io_writeMessage messageEncoder (written a),
                 std_cout [Str ''AGENT: sent REQUEST for HELLO_SERVCE ('', Num (written a),
                           Str ('' bytes)'' @ nl)]],
                bits'))
         else (logged, bits))"

text \<open>Lines 138 to 257: one iteration of the loop.\<close>

definition iteration ::
  "(byte list \<Rightarrow> CommonHeader option) \<Rightarrow> Answers \<Rightarrow> PrivateBits \<Rightarrow> event list \<times> PrivateBits" where
  "iteration decode a bits =
     (case checkConnection a of
        (performPeriodicTasks, dataIsAvailable, checked) \<Rightarrow>
          if dataIsAvailable then
            (let (es, bits') = readAndDispatch decode a bits in (checked @ es, bits'))
          else if performPeriodicTasks then
            (let (es, bits') = periodicTasks a bits in (checked @ es, bits'))
          else (checked, bits))"

text \<open>
  The loop never ends by itself. As long as the calls on the libraries return,
  \<open>iterations\<close> gives its first iterations, one for each element of the list of
  answers, and \<open>mainLoop\<close> puts the configuration of the transport and the allocation of
  the two buffers in front (lines 130 to 136).
\<close>

fun iterations ::
  "(byte list \<Rightarrow> CommonHeader option) \<Rightarrow> Answers list \<Rightarrow> PrivateBits \<Rightarrow> event list \<times> PrivateBits" where
  "iterations decode [] bits = ([], bits)"
| "iterations decode (a # as) bits =
     (let (es, bits') = iteration decode a bits;
          (es', bits'') = iterations decode as bits'
      in (es @ es', bits''))"

definition mainLoop ::
  "(byte list \<Rightarrow> CommonHeader option) \<Rightarrow> Answers list \<Rightarrow> PrivateBits \<Rightarrow> event list \<times> PrivateBits" where
  "mainLoop decode as bits =
     (let (es, bits') = iterations decode as bits
      in ([io_address (controllerAddress bits), io_port (controllerPort bits),
           io_setDelay (PrivateBits.delayms bits),
           io_makeMessageBuffer, io_makeMessageBuffer] @ es,
          bits'))"

subsection \<open>The main loop with exceptions\<close>

text \<open>
  The places of the loop where a library is called, by line. The calls on the codec
  between two calls on the transport are one place, split where \<open>fillHeader\<close> increments
  the sequence number: \<open>encoder_192\<close> and \<open>encoder_237\<close> are the construction of the
  encoder and the setters that \<open>fillHeader\<close> calls, \<open>encoder_194\<close> and \<open>encoder_239\<close> the
  calls from there to \<open>end()\<close>; \<open>delay_235\<close> is \<open>io.delay()\<close> with the periodicity TLV
  of lines 232 to 235; \<open>MessageDecoder_174\<close> is the construction of the decoder with the
  reading of its failure flag and header. \<open>throws\<close> says, for one iteration,
  which places throw a \<open>std::exception\<close>, and with which message.
\<close>

datatype site =
    makeMessageBuffer_135 | makeMessageBuffer_136
  | isConnectionClosed_143 | openSocket_145 | isConnectionClosed_149 | sleep_152
  | isDataAvailable_157 | readMessage_167 | MessageDecoder_174
  | encoder_192 | encoder_194 | writeMessage_209
  | isConnectionClosed_226 | isConnectionClosed_228 | delay_235
  | encoder_237 | encoder_239 | writeMessage_248

type_synonym throws = "site \<Rightarrow> string option"

text \<open>
  The outcome of a piece of the loop: the events, the attributes, and the message of the
  exception in flight, if one was thrown. \<open>returns\<close> is a piece that calls no library;
  \<open>lib\<close> is a call that either throws, leaving no event, or returns and leaves its
  events; \<open>andThen\<close> runs the rest of the code only when nothing was thrown.
\<close>

type_synonym outcome = "event list \<times> PrivateBits \<times> string option"

definition returns :: "event list \<Rightarrow> PrivateBits \<Rightarrow> outcome" where
  "returns es bits = (es, bits, None)"

definition lib :: "string option \<Rightarrow> event list \<Rightarrow> PrivateBits \<Rightarrow> outcome" where
  "lib thrown es bits =
     (case thrown of Some what \<Rightarrow> ([], bits, Some what) | None \<Rightarrow> (es, bits, None))"

definition andThen :: "outcome \<Rightarrow> (PrivateBits \<Rightarrow> outcome) \<Rightarrow> outcome" where
  "andThen r rest =
     (case r of
        (es, bits, Some what) \<Rightarrow> (es, bits, Some what)
      | (es, bits, None) \<Rightarrow> (case rest bits of (es', bits', x) \<Rightarrow> (es @ es', bits', x)))"

text \<open>
  The code of \<open>dispatch\<close>, \<open>readAndDispatch\<close>, \<open>periodicTasks\<close> and \<open>iteration\<close>
  again, statement by statement, with the exceptions of the calls.
\<close>

definition dispatch_exn :: "throws \<Rightarrow> nat \<Rightarrow> CommonHeader \<Rightarrow> PrivateBits \<Rightarrow> outcome" where
  "dispatch_exn t len hdr bits =
     (case entityClass hdr of
        HELLO_SERVICE \<Rightarrow>
          returns [std_cout [Str (''AGENT: got a REPLY for HELLO_SERVICE (discarded)'' @ nl)]] bits
      | CAPABILITIES_SERVICE \<Rightarrow>
          andThen (returns
            [std_cout [Str (''AGENT: got a REQUEST for CAPABILITIES_SERVICE (discarded)'' @ nl)]]
            bits) (\<lambda>bits.
          andThen (lib (t encoder_192) [] bits) (\<lambda>bits.
            (let messageEncoder = MessageEncoder;
                 (h, bits') = fillHeader (header messageEncoder) bits;
                 messageEncoder = messageEncoder
                   \<lparr>header := h\<lparr>messageClass := RESPONSE_SUCCESS,
                                 entityClass := CAPABILITIES_SERVICE\<rparr>\<rparr>;
                 tlvCell = TLVCell (PrivateBits.pci bits') (nPrb bits') (dlEarfcn bits') (ulEarfcn bits');
                 messageEncoder = add tlvCell messageEncoder
             in andThen (lib (t encoder_194) [] bits') (\<lambda>bits.
                andThen (lib (t writeMessage_209) [io_writeMessage messageEncoder len] bits) (\<lambda>bits.
                returns
                  [std_cout [Str ''AGENT: sent RESPONSE for CAPABILITIES_SERVICE ('', Num len,
                             Str ('' bytes)'' @ nl)]]
                  bits)))))
      | ENTITY_CLASS_OTHER n \<Rightarrow>
          returns [std_cerr [Str (''AGENT: *** got unexpected message class'' @ nl)]] bits)"

definition readAndDispatch_exn ::
  "(byte list \<Rightarrow> CommonHeader option) \<Rightarrow> throws \<Rightarrow> Answers \<Rightarrow> PrivateBits \<Rightarrow> outcome" where
  "readAndDispatch_exn decode t a bits =
     (let buf = messageBuffer a
      in andThen (lib (t readMessage_167) [io_readMessage buf] bits) (\<lambda>bits.
           if buf \<noteq> [] then
             andThen (returns [std_cout [Str (''AGENT: received message'' @ nl), Buf buf]] bits)
               (\<lambda>bits.
             andThen (lib (t MessageDecoder_174) [] bits) (\<lambda>bits.
               case decode buf of
                 Some hdr \<Rightarrow> dispatch_exn t (written a) hdr bits
               | None \<Rightarrow> returns [] bits))
           else returns [] bits))"

definition periodicTasks_exn :: "throws \<Rightarrow> Answers \<Rightarrow> PrivateBits \<Rightarrow> outcome" where
  "periodicTasks_exn t a bits =
     andThen (lib (t isConnectionClosed_226)
       [io_isConnectionClosed (closedAtLog a),
        std_cout [Str ''AGENT: waiting for messages... (isConnectionClosed() is '',
                  Flag (closedAtLog a), Str ('')'' @ nl)]]
       bits) (\<lambda>bits.
     andThen (lib (t isConnectionClosed_228) [io_isConnectionClosed (closedAtSend a)] bits) (\<lambda>bits.
       if \<not> closedAtSend a then
         andThen (lib (t delay_235) [io_delay (currentDelay a)] bits) (\<lambda>bits.
         andThen (lib (t encoder_237) [] bits) (\<lambda>bits.
           (let tlvPeriodicity = TLVPeriodicityMs (currentDelay a);
                messageEncoder = MessageEncoder;
                (h, bits') = fillHeader (header messageEncoder) bits;
                messageEncoder = messageEncoder
                  \<lparr>header := h\<lparr>messageClass := REQUEST_SET, entityClass := HELLO_SERVICE\<rparr>\<rparr>;
                messageEncoder = add tlvPeriodicity messageEncoder
            in andThen (lib (t encoder_239) [] bits') (\<lambda>bits.
               andThen (lib (t writeMessage_248) [io_writeMessage messageEncoder (written a)] bits)
                 (\<lambda>bits.
               returns
                 [std_cout [Str ''AGENT: sent REQUEST for HELLO_SERVCE ('', Num (written a),
                            Str ('' bytes)'' @ nl)]]
                 bits)))))
       else returns [] bits))"

definition iteration_exn ::
  "(byte list \<Rightarrow> CommonHeader option) \<Rightarrow> throws \<Rightarrow> Answers \<Rightarrow> PrivateBits \<Rightarrow> outcome" where
  "iteration_exn decode t a bits =
     andThen (lib (t isConnectionClosed_143) [io_isConnectionClosed (closedAtEntry a)] bits) (\<lambda>bits.
     andThen (if closedAtEntry a then lib (t openSocket_145) [io_openSocket] bits
              else returns [] bits) (\<lambda>bits.
     andThen (lib (t isConnectionClosed_149) [io_isConnectionClosed (closedAtRetest a)] bits) (\<lambda>bits.
     andThen (if closedAtRetest a then lib (t sleep_152) [io_sleep] bits
              else lib (t isDataAvailable_157) [io_isDataAvailable (dataAvailable a)] bits) (\<lambda>bits.
       (case checkConnection a of
          (performPeriodicTasks, dataIsAvailable, checked) \<Rightarrow>
            if dataIsAvailable then readAndDispatch_exn decode t a bits
            else if performPeriodicTasks then periodicTasks_exn t a bits
            else returns [] bits)))))"

text \<open>
  The loop goes on to the next iteration only when the iteration has thrown nothing.
  \<open>mainLoop_exn\<close> is the whole of \<open>Agent::mainLoop\<close>: line 130 configures the
  transport outside the \<open>try\<close> block, the two buffers are allocated inside it
  (\<open>t0\<close> says whether an allocation throws), and the handler logs the exception and
  ends the loop. The last component of the result says whether the loop has ended.
\<close>

fun iterations_exn ::
  "(byte list \<Rightarrow> CommonHeader option) \<Rightarrow> (throws \<times> Answers) list \<Rightarrow> PrivateBits \<Rightarrow> outcome" where
  "iterations_exn decode [] bits = returns [] bits"
| "iterations_exn decode ((t, a) # rest) bits =
     andThen (iteration_exn decode t a bits) (\<lambda>bits. iterations_exn decode rest bits)"

definition mainLoop_exn ::
  "(byte list \<Rightarrow> CommonHeader option) \<Rightarrow> throws \<Rightarrow> (throws \<times> Answers) list \<Rightarrow> PrivateBits
     \<Rightarrow> event list \<times> PrivateBits \<times> bool" where
  "mainLoop_exn decode t0 tas bits =
     (case andThen (returns [io_address (controllerAddress bits), io_port (controllerPort bits),
                             io_setDelay (PrivateBits.delayms bits)] bits) (\<lambda>bits.
           andThen (lib (t0 makeMessageBuffer_135) [io_makeMessageBuffer] bits) (\<lambda>bits.
           andThen (lib (t0 makeMessageBuffer_136) [io_makeMessageBuffer] bits) (\<lambda>bits.
           iterations_exn decode tas bits))) of
        (es, bits', Some what) \<Rightarrow>
          (es @ [std_cerr [Str ''AGENT: *** caught exception in main agent loop: '',
                           Str what, Str nl]],
           bits', True)
      | (es, bits', None) \<Rightarrow> (es, bits', False))"

text \<open>
  No call throws.
\<close>

definition no_throw :: throws where
  "no_throw = (\<lambda>s. None)"

subsection \<open>Stamped message sequences\<close>

text \<open>
  \<open>stamped s e ms\<close>: the messages \<open>ms\<close> carry the sequence numbers \<open>s\<close>, \<open>s + 1\<close>,
  \<open>s + 2\<close>, ... (in 32-bit arithmetic) in this order, and all carry the element id \<open>e\<close>.
\<close>

fun stamped :: "32 word \<Rightarrow> 64 word \<Rightarrow> Message list \<Rightarrow> bool" where
  "stamped s e [] = True"
| "stamped s e (m # ms) =
     (CommonHeader.sequence (header m) = s \<and> elementId (header m) = e \<and> stamped (s + 1) e ms)"

subsection \<open>Observations on traces and answers\<close>

text \<open>
  The lines written to \<open>std::cerr\<close>; the events that are log lines; the HELLO requests
  among the messages; the answers of an iteration in which every connection check reports
  the connection closed, with the trace of such an iteration; the answers of an iteration
  in which the connection is open and data is reported available; and the inbound
  messages that get no reply (empty buffer, decode failure, or an entity class other
  than \<open>CAPABILITIES_SERVICE\<close>).
\<close>

fun errors :: "event list \<Rightarrow> log_item list list" where
  "errors [] = []"
| "errors (std_cerr items # es) = items # errors es"
| "errors (e # es) = errors es"

fun isLog :: "event \<Rightarrow> bool" where
  "isLog (std_cout items) = True"
| "isLog (std_cerr items) = True"
| "isLog e = False"

definition isHeartbeat :: "Message \<Rightarrow> bool" where
  "isHeartbeat m = (messageClass (header m) = REQUEST_SET \<and> entityClass (header m) = HELLO_SERVICE)"

definition reportsClosed :: "Answers \<Rightarrow> bool" where
  "reportsClosed a = (closedAtEntry a \<and> closedAtRetest a \<and> closedAtLog a \<and> closedAtSend a)"

definition reportsData :: "Answers \<Rightarrow> bool" where
  "reportsData a = (\<not> closedAtRetest a \<and> dataAvailable a)"

definition discarded :: "(byte list \<Rightarrow> CommonHeader option) \<Rightarrow> Answers \<Rightarrow> bool" where
  "discarded decode a =
     (messageBuffer a = [] \<or>
      (case decode (messageBuffer a) of
         None \<Rightarrow> True
       | Some hdr \<Rightarrow> entityClass hdr \<noteq> CAPABILITIES_SERVICE))"

definition closed_trace :: "event list" where
  "closed_trace =
     [io_isConnectionClosed True, io_openSocket, io_isConnectionClosed True, io_sleep,
      io_isConnectionClosed True,
      std_cout [Str ''AGENT: waiting for messages... (isConnectionClosed() is '',
                Flag True, Str ('')'' @ nl)],
      io_isConnectionClosed True]"

text \<open>
  \<open>reachesRead\<close>: the iteration gets to \<open>readMessage\<close>, that is, the calls before it
  return, the connection is reported open and data is reported available. \<open>caught\<close> is
  the line that the handler of the loop logs.
\<close>

definition reachesRead :: "throws \<Rightarrow> Answers \<Rightarrow> bool" where
  "reachesRead t a =
     (t isConnectionClosed_143 = None \<and> (closedAtEntry a \<longrightarrow> t openSocket_145 = None) \<and>
      t isConnectionClosed_149 = None \<and> \<not> closedAtRetest a \<and>
      t isDataAvailable_157 = None \<and> dataAvailable a)"

definition caught :: "string \<Rightarrow> event" where
  "caught what =
     std_cerr [Str ''AGENT: *** caught exception in main agent loop: '', Str what, Str nl]"

subsection \<open>Example inputs\<close>

text \<open>
  A configuration (polling delay 2000 ms, cell 5 with 25 resource blocks on the carriers
  1850 and 19850), the attributes of an agent before and after \<open>init\<close> on it, a stand-in
  for the address parser and one for the decoder (the first byte of a buffer selects the
  message class, the second the entity class), and the answers of the transport in some
  iterations.
\<close>

definition example_IPv4Address_of :: "string \<Rightarrow> string + IPv4Address" where
  "example_IPv4Address_of s =
     (if s = ''127.0.0.1'' then Inr 0x7F000001 else Inl ''invalid IPv4 address'')"

definition example_args :: all_args_t where
  "example_args =
     \<lparr>empoweragent = \<lparr>controller_addr = ''127.0.0.1'', controller_port = 2210,
                       empoweragent_args_t.delayms = 2000\<rparr>,
      enb = \<lparr>enb_args_t.pci = 5, dl_earfcn = 1850, ul_earfcn = 19850, n_prb = 25\<rparr>,
      stack = \<lparr>s1ap = \<lparr>enb_id = 411\<rparr>\<rparr>\<rparr>"

definition blank_bits :: PrivateBits where
  "blank_bits =
     \<lparr>agentThread = None, controllerAddress = 0, controllerPort = 0, PrivateBits.delayms = 0,
      PrivateBits.pci = 0, dlEarfcn = 0, ulEarfcn = 0, nPrb = 0, enbId = 0,
      PrivateBits.sequence = 0\<rparr>"

definition example_bits :: PrivateBits where
  "example_bits =
     \<lparr>agentThread = None, controllerAddress = 0x7F000001, controllerPort = 2210,
      PrivateBits.delayms = 2000, PrivateBits.pci = 5, dlEarfcn = 1850, ulEarfcn = 19850,
      nPrb = 25, enbId = 411, PrivateBits.sequence = 1\<rparr>"

fun example_decode :: "byte list \<Rightarrow> CommonHeader option" where
  "example_decode (c # e # rest) =
     Some \<lparr>CommonHeader.sequence = 7, elementId = 0,
           messageClass = (if c = 0 then REQUEST_SET else if c = 1 then RESPONSE_SUCCESS
                           else RESPONSE_OTHER (unat c)),
           entityClass = (if e = 0 then HELLO_SERVICE else if e = 1 then CAPABILITIES_SERVICE
                          else ENTITY_CLASS_OTHER (unat e))\<rparr>"
| "example_decode rest = None"

definition idle_open :: Answers where
  "idle_open =
     \<lparr>closedAtEntry = False, closedAtRetest = False, dataAvailable = False, messageBuffer = [],
      closedAtLog = False, closedAtSend = False, currentDelay = 2000, written = 24\<rparr>"

definition wrapping_run :: "Message list" where
  "wrapping_run = sent (fst (mainLoop example_decode (replicate (2 ^ 32) idle_open) example_bits))"

definition all_closed :: Answers where
  "all_closed =
     \<lparr>closedAtEntry = True, closedAtRetest = True, dataAvailable = False, messageBuffer = [],
      closedAtLog = True, closedAtSend = True, currentDelay = 2000, written = 0\<rparr>"

definition data_in :: "byte list \<Rightarrow> Answers" where
  "data_in buf =
     \<lparr>closedAtEntry = False, closedAtRetest = False, dataAvailable = True, messageBuffer = buf,
      closedAtLog = False, closedAtSend = False, currentDelay = 2000, written = 32\<rparr>"

definition reconnected_data :: Answers where
  "reconnected_data =
     \<lparr>closedAtEntry = True, closedAtRetest = False, dataAvailable = True, messageBuffer = [0, 1],
      closedAtLog = False, closedAtSend = False, currentDelay = 2000, written = 32\<rparr>"

definition capabilities_request :: CommonHeader where
  "capabilities_request =
     \<lparr>CommonHeader.sequence = 7, elementId = 0, messageClass = REQUEST_SET,
      entityClass = CAPABILITIES_SERVICE\<rparr>"

definition capabilities_response :: CommonHeader where
  "capabilities_response =
     \<lparr>CommonHeader.sequence = 7, elementId = 0, messageClass = RESPONSE_SUCCESS,
      entityClass = CAPABILITIES_SERVICE\<rparr>"

definition hello_request :: CommonHeader where
  "hello_request =
     \<lparr>CommonHeader.sequence = 7, elementId = 0, messageClass = REQUEST_SET,
      entityClass = HELLO_SERVICE\<rparr>"

definition unknown_request :: CommonHeader where
  "unknown_request =
     \<lparr>CommonHeader.sequence = 7, elementId = 0, messageClass = REQUEST_SET,
      entityClass = ENTITY_CLASS_OTHER 9\<rparr>"

text \<open>
  An iteration in which the decoder throws, and a configuration whose controller address
  does not parse.
\<close>

definition decoder_throws :: throws where
  "decoder_throws = (\<lambda>s. if s = MessageDecoder_174 then Some ''malformed message'' else None)"


section \<open>Properties\<close>

subsection \<open>Traces\<close>

lemma sent_append: "sent (xs @ ys) = sent xs @ sent ys"
  by (induction xs rule: sent.induct) simp_all

lemma received_append: "received (xs @ ys) = received xs @ received ys"
  by (induction xs rule: received.induct) simp_all

lemma calls_append: "calls e (xs @ ys) = calls e xs + calls e ys"
  by (simp add: calls_def)

lemma stamped_append:
  "stamped s e (xs @ ys) = (stamped s e xs \<and> stamped (s + of_nat (length xs)) e ys)"
  by (induction xs arbitrary: s) (auto simp: add.assoc add.commute)

lemma stamped_nth:
  "stamped s e ms \<Longrightarrow> i < length ms \<Longrightarrow>
     CommonHeader.sequence (header (ms ! i)) = s + of_nat i \<and> elementId (header (ms ! i)) = e"
proof (induction ms arbitrary: s i)
  case Nil
  then show ?case by simp
next
  case (Cons m ms)
  show ?case
  proof (cases i)
    case 0
    with Cons.prems show ?thesis by simp
  next
    case (Suc j)
    with Cons.prems have "stamped (s + 1) e ms" and "j < length ms" by simp_all
    from Cons.IH [OF this] Suc show ?thesis by (simp add: add.assoc add.commute)
  qed
qed

lemma dispatch_sent_cases:
  "(sent (fst (dispatch len hdr bits)) = [] \<and> snd (dispatch len hdr bits) = bits) \<or>
   (\<exists>m. sent (fst (dispatch len hdr bits)) = [m] \<and>
        CommonHeader.sequence (header m) = PrivateBits.sequence bits \<and>
        elementId (header m) = ucast (enbId bits) \<and>
        snd (dispatch len hdr bits) = bits\<lparr>PrivateBits.sequence := PrivateBits.sequence bits + 1\<rparr>)"
  by (cases "entityClass hdr") (simp_all add: dispatch_def fillHeader_def MessageEncoder_def add_def Let_def)

lemma periodicTasks_sent_cases:
  "(sent (fst (periodicTasks a bits)) = [] \<and> snd (periodicTasks a bits) = bits) \<or>
   (\<exists>m. sent (fst (periodicTasks a bits)) = [m] \<and>
        CommonHeader.sequence (header m) = PrivateBits.sequence bits \<and>
        elementId (header m) = ucast (enbId bits) \<and>
        snd (periodicTasks a bits) = bits\<lparr>PrivateBits.sequence := PrivateBits.sequence bits + 1\<rparr>)"
  by (simp add: periodicTasks_def fillHeader_def MessageEncoder_def add_def Let_def)

lemma readAndDispatch_sent:
  "sent (fst (readAndDispatch decode a bits)) =
     (if messageBuffer a = [] then []
      else case decode (messageBuffer a) of None \<Rightarrow> []
           | Some hdr \<Rightarrow> sent (fst (dispatch (written a) hdr bits)))"
  by (simp add: readAndDispatch_def Let_def sent_append split: option.splits prod.splits)

lemma readAndDispatch_snd:
  "snd (readAndDispatch decode a bits) =
     (if messageBuffer a = [] then bits
      else case decode (messageBuffer a) of None \<Rightarrow> bits
           | Some hdr \<Rightarrow> snd (dispatch (written a) hdr bits))"
  by (simp add: readAndDispatch_def Let_def split: option.splits prod.splits)

lemma checkConnection_sent: "sent (snd (snd (checkConnection a))) = []"
  by (simp add: checkConnection_def Let_def)

lemma iteration_unfold:
  "iteration decode a bits =
     (if fst (snd (checkConnection a)) then
        (snd (snd (checkConnection a)) @ fst (readAndDispatch decode a bits),
         snd (readAndDispatch decode a bits))
      else if fst (checkConnection a) then
        (snd (snd (checkConnection a)) @ fst (periodicTasks a bits), snd (periodicTasks a bits))
      else (snd (snd (checkConnection a)), bits))"
  by (simp add: iteration_def split: prod.splits)

lemma iteration_sent_cases:
  "(sent (fst (iteration decode a bits)) = [] \<and> snd (iteration decode a bits) = bits) \<or>
   (\<exists>m. sent (fst (iteration decode a bits)) = [m] \<and>
        CommonHeader.sequence (header m) = PrivateBits.sequence bits \<and>
        elementId (header m) = ucast (enbId bits) \<and>
        snd (iteration decode a bits) = bits\<lparr>PrivateBits.sequence := PrivateBits.sequence bits + 1\<rparr>)"
  using dispatch_sent_cases [of "written a" _ bits] periodicTasks_sent_cases [of a bits]
  by (simp add: iteration_unfold sent_append checkConnection_sent readAndDispatch_sent
      readAndDispatch_snd split: option.splits)

lemma iteration_stamped:
  "stamped (PrivateBits.sequence bits) (ucast (enbId bits)) (sent (fst (iteration decode a bits)))
   \<and> snd (iteration decode a bits) =
       bits\<lparr>PrivateBits.sequence :=
              PrivateBits.sequence bits + of_nat (length (sent (fst (iteration decode a bits))))\<rparr>"
  using iteration_sent_cases [of decode a bits] by auto

lemma iterations_unfold:
  "iterations decode (a # as) bits =
     (fst (iteration decode a bits) @ fst (iterations decode as (snd (iteration decode a bits))),
      snd (iterations decode as (snd (iteration decode a bits))))"
  by (simp add: split_def Let_def)

lemma iterations_stamped:
  "stamped (PrivateBits.sequence bits) (ucast (enbId bits)) (sent (fst (iterations decode as bits)))
   \<and> snd (iterations decode as bits) =
       bits\<lparr>PrivateBits.sequence :=
              PrivateBits.sequence bits + of_nat (length (sent (fst (iterations decode as bits))))\<rparr>"
proof (induction as arbitrary: bits)
  case Nil
  show ?case by simp
next
  case (Cons a as)
  let ?b = "snd (iteration decode a bits)"
  let ?n = "length (sent (fst (iteration decode a bits)))"
  from iteration_stamped [of bits decode a]
  have st: "stamped (PrivateBits.sequence bits) (ucast (enbId bits)) (sent (fst (iteration decode a bits)))"
    and b: "?b = bits\<lparr>PrivateBits.sequence := PrivateBits.sequence bits + of_nat ?n\<rparr>"
    by simp_all
  have seq: "PrivateBits.sequence ?b = PrivateBits.sequence bits + of_nat ?n"
    using arg_cong [OF b, of PrivateBits.sequence] by simp
  have id: "enbId ?b = enbId bits"
    using arg_cong [OF b, of enbId] by simp
  from Cons.IH [of ?b] seq id st b show ?case
    by (simp add: iterations_unfold sent_append stamped_append add.assoc del: iterations.simps)
qed

lemma mainLoop_sent: "sent (fst (mainLoop decode as bits)) = sent (fst (iterations decode as bits))"
  by (simp add: mainLoop_def split_def Let_def)

lemma mainLoop_snd: "snd (mainLoop decode as bits) = snd (iterations decode as bits)"
  by (simp add: mainLoop_def split_def Let_def)

lemma init_example:
  "init example_IPv4Address_of example_args blank_bits = (False, [], example_bits)"
  by (simp add: init_def example_IPv4Address_of_def example_args_def blank_bits_def example_bits_def)

lemma init_success:
  assumes "init IPv4Address_of all_args bits0 = (False, es0, bits)"
  shows "PrivateBits.sequence bits = 1 \<and> enbId bits = enb_id (s1ap (stack all_args))"
  using assms by (auto simp: init_def split: sum.splits)

lemma periodicTasks_open:
  "\<not> closedAtSend a \<Longrightarrow>
   sent (fst (periodicTasks a bits)) =
     [\<lparr>header = \<lparr>CommonHeader.sequence = PrivateBits.sequence bits, elementId = ucast (enbId bits),
                 messageClass = REQUEST_SET, entityClass = HELLO_SERVICE\<rparr>,
       tlvs = [TLVPeriodicityMs (currentDelay a)]\<rparr>]"
  by (simp add: periodicTasks_def fillHeader_def MessageEncoder_def add_def Let_def)

lemma checkConnection_flags:
  "fst (checkConnection a) \<Longrightarrow> \<not> fst (snd (checkConnection a))"
  by (simp add: checkConnection_def Let_def split: if_splits)

lemma iteration_idle_open:
  "fst (checkConnection a) \<Longrightarrow> \<not> closedAtSend a \<Longrightarrow>
   sent (fst (iteration decode a bits)) =
     [\<lparr>header = \<lparr>CommonHeader.sequence = PrivateBits.sequence bits, elementId = ucast (enbId bits),
                 messageClass = REQUEST_SET, entityClass = HELLO_SERVICE\<rparr>,
       tlvs = [TLVPeriodicityMs (currentDelay a)]\<rparr>]"
  by (simp add: iteration_unfold checkConnection_flags sent_append checkConnection_sent
      periodicTasks_open)

lemma iterations_idle_open_length:
  "fst (checkConnection a) \<Longrightarrow> \<not> closedAtSend a \<Longrightarrow>
   length (sent (fst (iterations decode (replicate n a) bits))) = n"
  by (induction n arbitrary: bits)
     (simp_all add: iterations_unfold sent_append iteration_idle_open del: iterations.simps(2))

lemma idle_open_tick: "fst (checkConnection idle_open) \<and> \<not> closedAtSend idle_open"
  by (simp add: checkConnection_def idle_open_def)

lemma errors_append: "errors (xs @ ys) = errors xs @ errors ys"
  by (induction xs rule: errors.induct) simp_all

lemma iteration_reads:
  "\<not> closedAtRetest a \<Longrightarrow> dataAvailable a \<Longrightarrow>
   iteration decode a bits =
     (snd (snd (checkConnection a)) @ fst (readAndDispatch decode a bits),
      snd (readAndDispatch decode a bits))"
  by (simp add: iteration_unfold checkConnection_def Let_def)

lemma dispatch_CAPABILITIES:
  "entityClass hdr = CAPABILITIES_SERVICE \<Longrightarrow>
   dispatch len hdr bits =
     ([std_cout [Str (''AGENT: got a REQUEST for CAPABILITIES_SERVICE (discarded)'' @ nl)],
       io_writeMessage
         \<lparr>header = \<lparr>CommonHeader.sequence = PrivateBits.sequence bits,
                     elementId = ucast (enbId bits),
                     messageClass = RESPONSE_SUCCESS, entityClass = CAPABILITIES_SERVICE\<rparr>,
           tlvs = [TLVCell (PrivateBits.pci bits) (nPrb bits) (dlEarfcn bits) (ulEarfcn bits)]\<rparr>
         len,
       std_cout [Str ''AGENT: sent RESPONSE for CAPABILITIES_SERVICE ('', Num len,
                 Str ('' bytes)'' @ nl)]],
      bits\<lparr>PrivateBits.sequence := PrivateBits.sequence bits + 1\<rparr>)"
  by (simp add: dispatch_def fillHeader_def MessageEncoder_def add_def Let_def)

lemma dispatch_HELLO:
  "entityClass hdr = HELLO_SERVICE \<Longrightarrow>
   dispatch len hdr bits =
     ([std_cout [Str (''AGENT: got a REPLY for HELLO_SERVICE (discarded)'' @ nl)]], bits)"
  by (simp add: dispatch_def)

lemma dispatch_OTHER:
  "entityClass hdr \<noteq> HELLO_SERVICE \<Longrightarrow> entityClass hdr \<noteq> CAPABILITIES_SERVICE \<Longrightarrow>
   dispatch len hdr bits =
     ([std_cerr [Str (''AGENT: *** got unexpected message class'' @ nl)]], bits)"
  by (cases "entityClass hdr") (simp_all add: dispatch_def)

lemma dispatch_calls:
  "calls io_openSocket (fst (dispatch len hdr bits)) = 0"
  "calls io_sleep (fst (dispatch len hdr bits)) = 0"
  "calls (io_isDataAvailable d) (fst (dispatch len hdr bits)) = 0"
  "calls (io_delay w) (fst (dispatch len hdr bits)) = 0"
  by (cases "entityClass hdr"; simp add: dispatch_def calls_def Let_def split_def)+

lemma readAndDispatch_calls:
  "calls io_openSocket (fst (readAndDispatch decode a bits)) = 0"
  "calls io_sleep (fst (readAndDispatch decode a bits)) = 0"
  "calls (io_isDataAvailable d) (fst (readAndDispatch decode a bits)) = 0"
  "calls (io_delay w) (fst (readAndDispatch decode a bits)) = 0"
  using dispatch_calls
  by (simp_all add: readAndDispatch_def Let_def split_def calls_append split: option.splits)
     (simp_all add: calls_def)

lemma periodicTasks_calls:
  "calls io_openSocket (fst (periodicTasks a bits)) = 0"
  "calls io_sleep (fst (periodicTasks a bits)) = 0"
  "calls (io_isDataAvailable d) (fst (periodicTasks a bits)) = 0"
  by (simp_all add: periodicTasks_def Let_def split_def calls_def)

lemma iteration_calls:
  "calls e (fst (iteration decode a bits)) =
     calls e (snd (snd (checkConnection a))) +
     (if fst (snd (checkConnection a)) then calls e (fst (readAndDispatch decode a bits))
      else if fst (checkConnection a) then calls e (fst (periodicTasks a bits)) else 0)"
  by (simp add: iteration_unfold calls_append)

lemma readAndDispatch_received:
  "received (fst (readAndDispatch decode a bits)) = [messageBuffer a]"
proof -
  have "received (fst (dispatch len hdr bits)) = []" for len hdr
    by (cases "entityClass hdr") (simp_all add: dispatch_def Let_def split_def)
  then show ?thesis
    by (simp add: readAndDispatch_def Let_def split_def received_append split: option.splits)
qed

lemma checkConnection_received: "received (snd (snd (checkConnection a))) = []"
  by (simp add: checkConnection_def Let_def)

lemma iteration_closed:
  "reportsClosed a \<Longrightarrow> iteration decode a bits = (closed_trace, bits)"
  by (simp add: reportsClosed_def iteration_def checkConnection_def periodicTasks_def
      closed_trace_def Let_def)

lemma iterations_closed:
  "list_all reportsClosed as \<Longrightarrow>
   iterations decode as bits = (concat (replicate (length as) closed_trace), bits)"
  by (induction as) (simp_all add: iteration_closed)

lemma calls_concat_replicate: "calls e (concat (replicate n es)) = n * calls e es"
  by (induction n) (simp_all add: calls_def)

lemma sent_concat_replicate: "sent es = [] \<Longrightarrow> sent (concat (replicate n es)) = []"
  by (induction n) (simp_all add: sent_append)

lemma received_concat_replicate: "received es = [] \<Longrightarrow> received (concat (replicate n es)) = []"
  by (induction n) (simp_all add: received_append)

lemma mainLoop_unfold:
  "mainLoop decode as bits =
     ([io_address (controllerAddress bits), io_port (controllerPort bits),
       io_setDelay (PrivateBits.delayms bits), io_makeMessageBuffer, io_makeMessageBuffer]
        @ fst (iterations decode as bits),
      snd (iterations decode as bits))"
  by (simp add: mainLoop_def split_def Let_def)

lemma iteration_data_no_heartbeat:
  assumes "reportsData a"
  shows "filter isHeartbeat (sent (fst (iteration decode a bits))) = []"
proof -
  have "filter isHeartbeat (sent (fst (dispatch len hdr bits))) = []" for len hdr
    by (cases "entityClass hdr")
       (simp_all add: dispatch_def fillHeader_def add_def Let_def isHeartbeat_def)
  with assms show ?thesis
    by (simp add: reportsData_def iteration_reads sent_append checkConnection_sent
        readAndDispatch_sent split: option.splits)
qed

lemma iterations_data_no_heartbeat:
  "list_all reportsData as \<Longrightarrow> filter isHeartbeat (sent (fst (iterations decode as bits))) = []"
  by (induction as arbitrary: bits)
     (simp_all add: iterations_unfold sent_append iteration_data_no_heartbeat
        del: iterations.simps(2))

lemma iteration_discarded:
  assumes "reportsData a" and "discarded decode a"
  shows "sent (fst (iteration decode a bits)) = [] \<and> snd (iteration decode a bits) = bits"
proof -
  have "sent (fst (dispatch len hdr bits)) = [] \<and> snd (dispatch len hdr bits) = bits"
    if "entityClass hdr \<noteq> CAPABILITIES_SERVICE" for len hdr
    using that by (cases "entityClass hdr") (simp_all add: dispatch_def)
  with assms show ?thesis
    by (auto simp: reportsData_def discarded_def iteration_reads sent_append checkConnection_sent
        readAndDispatch_sent readAndDispatch_snd split: option.splits)
qed

lemma iterations_discarded:
  "list_all reportsData as \<Longrightarrow> list_all (discarded decode) as \<Longrightarrow>
   sent (fst (iterations decode as bits)) = [] \<and> snd (iterations decode as bits) = bits"
  by (induction as)
     (simp_all add: iterations_unfold sent_append iteration_discarded del: iterations.simps(2))

subsection \<open>The loop with and without exceptions\<close>

lemma andThen_returns: "andThen (returns es bits) rest =
    (es @ fst (rest bits), fst (snd (rest bits)), snd (snd (rest bits)))"
  by (simp add: andThen_def returns_def split: prod.splits)

lemma andThen_lib_None: "andThen (lib None es bits) rest =
    (es @ fst (rest bits), fst (snd (rest bits)), snd (snd (rest bits)))"
  by (simp add: andThen_def lib_def split: prod.splits)

lemma andThen_lib_Some: "andThen (lib (Some what) es bits) rest = ([], bits, Some what)"
  by (simp add: andThen_def lib_def)

lemma andThen_thrown: "andThen (es, bits, Some what) rest = (es, bits, Some what)"
  by (simp add: andThen_def)

lemma andThen_returned:
  "andThen (es, bits, None) rest = (es @ fst (rest bits), fst (snd (rest bits)), snd (snd (rest bits)))"
  by (simp add: andThen_def split: prod.splits)

lemma lib_no_throw: "lib (no_throw s) es bits = (es, bits, None)"
  by (simp add: lib_def no_throw_def)

lemma lib_None: "lib None es bits = (es, bits, None)"
  by (simp add: lib_def)

lemma lib_Some: "lib (Some what) es bits = ([], bits, Some what)"
  by (simp add: lib_def)

lemmas exn_simps = lib_no_throw lib_None lib_Some returns_def andThen_returned andThen_thrown
  split_def Let_def

lemma dispatch_exn_no_throw:
  "dispatch_exn no_throw len hdr bits =
     (fst (dispatch len hdr bits), snd (dispatch len hdr bits), None)"
  by (cases "entityClass hdr") (simp_all add: dispatch_exn_def dispatch_def exn_simps)

lemma periodicTasks_exn_no_throw:
  "periodicTasks_exn no_throw a bits =
     (fst (periodicTasks a bits), snd (periodicTasks a bits), None)"
  by (simp add: periodicTasks_exn_def periodicTasks_def exn_simps)

lemma readAndDispatch_exn_no_throw:
  "readAndDispatch_exn decode no_throw a bits =
     (fst (readAndDispatch decode a bits), snd (readAndDispatch decode a bits), None)"
  by (simp add: readAndDispatch_exn_def readAndDispatch_def dispatch_exn_no_throw exn_simps
      split: option.splits)

lemma iteration_exn_no_throw:
  "iteration_exn decode no_throw a bits =
     (fst (iteration decode a bits), snd (iteration decode a bits), None)"
  by (simp add: iteration_exn_def iteration_def checkConnection_def
      periodicTasks_exn_no_throw readAndDispatch_exn_no_throw exn_simps)

lemma iterations_exn_no_throw:
  "iterations_exn decode (map (Pair no_throw) as) bits =
     (fst (iterations decode as bits), snd (iterations decode as bits), None)"
  by (induction as arbitrary: bits) (simp_all add: iteration_exn_no_throw exn_simps)

lemma mainLoop_exn_no_throw:
  "mainLoop_exn decode no_throw (map (Pair no_throw) as) bits =
     (fst (mainLoop decode as bits), snd (mainLoop decode as bits), False)"
  by (simp add: mainLoop_exn_def mainLoop_def iterations_exn_no_throw exn_simps)

lemma iterations_exn_append:
  "iterations_exn decode (xs @ ys) bits =
     andThen (iterations_exn decode xs bits) (\<lambda>bits. iterations_exn decode ys bits)"
proof (induction xs arbitrary: bits)
  case Nil
  show ?case by (simp add: exn_simps)
next
  case (Cons x xs)
  obtain t a where x: "x = (t, a)" by (cases x)
  obtain es b r where i: "iteration_exn decode t a bits = (es, b, r)"
    by (cases "iteration_exn decode t a bits")
  show ?case
    by (cases r) (simp_all add: x i Cons.IH exn_simps andThen_def split: prod.splits option.splits)
qed

lemma iteration_exn_reachesRead:
  "reachesRead t a \<Longrightarrow>
   iteration_exn decode t a bits =
     andThen (snd (snd (checkConnection a)), bits, None) (readAndDispatch_exn decode t a)"
  by (simp add: reachesRead_def iteration_exn_def checkConnection_def exn_simps)

lemma mainLoop_exn_thrown:
  assumes "iteration_exn decode t a (snd (mainLoop decode as bits)) = (es, bits', Some what)"
  shows "mainLoop_exn decode no_throw (map (Pair no_throw) as @ (t, a) # rest) bits =
           (fst (mainLoop decode as bits) @ es @ [caught what], bits', True)"
  using assms
  by (simp add: mainLoop_exn_def mainLoop_def iterations_exn_append iterations_exn_no_throw
      caught_def exn_simps)

subsection \<open>Sequence numbers and element id\<close>

text \<open>
  Claim C1, as the code has it. After a successful \<open>init\<close>, the messages that the main loop
  writes (HELLO requests and CAPABILITIES responses, in the order they are sent) carry the
  sequence numbers 1, 2, 3, ... of a 32-bit unsigned counter: message number \<open>i\<close> (from 0)
  carries \<open>i + 1\<close> modulo \<open>2 ^ 32\<close>. As long as fewer than \<open>2 ^ 32\<close> messages have been
  sent, the numbers read as unsigned integers are exactly \<open>i + 1\<close>, so they increase
  strictly, by exactly 1, from 1. Every message carries the configured eNodeB identifier,
  widened to 64 bit, as its element id.
\<close>

theorem sequence_numbers_consecutive:
  assumes "init IPv4Address_of all_args bits0 = (False, es0, bits)"
    and "ms = sent (fst (mainLoop decode as bits))"
  shows "(\<forall>i<length ms.
            CommonHeader.sequence (header (ms ! i)) = of_nat (i + 1) \<and>
            elementId (header (ms ! i)) = ucast (enb_id (s1ap (stack all_args)))) \<and>
         (length ms < 2 ^ 32 \<longrightarrow>
            (\<forall>i<length ms. unat (CommonHeader.sequence (header (ms ! i))) = i + 1))"
proof -
  from init_success [OF assms(1)]
  have s: "PrivateBits.sequence bits = 1" and e: "enbId bits = enb_id (s1ap (stack all_args))"
    by simp_all
  from iterations_stamped [of bits decode as] s e assms(2)
  have st: "stamped 1 (ucast (enb_id (s1ap (stack all_args)))) ms"
    by (simp add: mainLoop_sent)
  have nth: "CommonHeader.sequence (header (ms ! i)) = of_nat (i + 1) \<and>
             elementId (header (ms ! i)) = ucast (enb_id (s1ap (stack all_args)))"
    if "i < length ms" for i
    using stamped_nth [OF st that] by simp
  have "unat (CommonHeader.sequence (header (ms ! i))) = i + 1"
    if "i < length ms" and "length ms < 2 ^ 32" for i
  proof -
    from that have "i + 1 < 2 ^ 32" by simp
    then have "unat (of_nat (i + 1) :: 32 word) = i + 1"
      by (intro of_nat_inverse [OF refl]) simp
    with nth [OF that(1)] show ?thesis by simp
  qed
  with nth show ?thesis by blast
qed

theorem sequence_numbers_consecutive_witness:
  "init example_IPv4Address_of example_args blank_bits = (False, [], example_bits) \<and>
   map (\<lambda>m. (unat (CommonHeader.sequence (header m)), elementId (header m)))
     (sent (fst (mainLoop example_decode [idle_open, idle_open, idle_open] example_bits)))
   = [(1, 411), (2, 411), (3, 411)]"
proof -
  let ?ms = "sent (fst (mainLoop example_decode [idle_open, idle_open, idle_open] example_bits))"
  have len: "length ?ms = 3"
    by (simp add: mainLoop_def iteration_def checkConnection_def periodicTasks_def fillHeader_def
        MessageEncoder_def add_def idle_open_def example_bits_def Let_def)
  then have small: "length ?ms < 2 ^ 32"
    by simp
  note t = sequence_numbers_consecutive
    [OF init_example refl, of example_decode "[idle_open, idle_open, idle_open]"]
  from conjunct1 [OF t]
  have ids: "\<forall>i<length ?ms. elementId (header (?ms ! i)) = 411"
    by (simp add: example_args_def)
  from conjunct2 [OF t, THEN mp, OF small]
  have seqs: "\<forall>i<length ?ms. unat (CommonHeader.sequence (header (?ms ! i))) = i + 1" .
  from ids seqs show ?thesis
    unfolding len by (simp add: init_example list_eq_iff_nth_eq len less_Suc_eq numeral_3_eq_3)
qed

text \<open>
  The claim C1 as stated, with numbers strictly increasing in every sequence of messages,
  fails once the counter wraps around: in a run of \<open>2 ^ 32\<close> iterations that each send
  a HELLO request, the last but one message carries 4294967295 and the last one carries 0.
\<close>

theorem sequence_numbers_wrap:
  "init example_IPv4Address_of example_args blank_bits = (False, [], example_bits) \<and>
   length wrapping_run = 4294967296 \<and>
   CommonHeader.sequence (header (wrapping_run ! 4294967294)) = 4294967295 \<and>
   CommonHeader.sequence (header (wrapping_run ! 4294967295)) = 0"
proof -
  define n :: nat where "n = 4294967296"
  have run: "wrapping_run = sent (fst (iterations example_decode (replicate n idle_open) example_bits))"
    by (simp add: wrapping_run_def mainLoop_sent n_def)
  have len: "length wrapping_run = n"
    unfolding run using iterations_idle_open_length [of idle_open example_decode n example_bits] idle_open_tick
    by simp
  have st: "stamped 1 (ucast (enbId example_bits)) wrapping_run"
    unfolding run using iterations_stamped [of example_bits example_decode "replicate n idle_open"]
    by (simp add: example_bits_def)
  have a: "CommonHeader.sequence (header (wrapping_run ! 4294967294)) = 1 + of_nat 4294967294"
    using stamped_nth [OF st, of 4294967294] len by (simp add: n_def)
  have b: "CommonHeader.sequence (header (wrapping_run ! 4294967295)) = 1 + of_nat 4294967295"
    using stamped_nth [OF st, of 4294967295] len by (simp add: n_def)
  from a b len show ?thesis
    by (simp add: init_example n_def)
qed

subsection \<open>Dispatch of inbound messages\<close>

text \<open>
  Claim C2. For every decoded inbound message whose entity class is
  \<open>CAPABILITIES_SERVICE\<close> and whose message class is a request class, dispatch writes
  exactly one message: its message class is \<open>RESPONSE_SUCCESS\<close>, its entity class is
  \<open>CAPABILITIES_SERVICE\<close>, and it carries one cell TLV with the configured physical cell
  id, number of resource blocks, downlink and uplink carrier numbers. An iteration of the
  loop that reads and decodes such a message sends exactly this message.
\<close>

theorem capabilities_request_answered:
  assumes "entityClass hdr = CAPABILITIES_SERVICE"
    and "isRequestClass (messageClass hdr)"
  shows "sent (fst (dispatch len hdr bits)) =
           [\<lparr>header = \<lparr>CommonHeader.sequence = PrivateBits.sequence bits,
                       elementId = ucast (enbId bits),
                       messageClass = RESPONSE_SUCCESS, entityClass = CAPABILITIES_SERVICE\<rparr>,
             tlvs = [TLVCell (PrivateBits.pci bits) (nPrb bits) (dlEarfcn bits) (ulEarfcn bits)]\<rparr>]
         \<and> (\<not> closedAtRetest a \<and> dataAvailable a \<and> messageBuffer a \<noteq> [] \<and>
              decode (messageBuffer a) = Some hdr \<longrightarrow>
            sent (fst (iteration decode a bits)) = sent (fst (dispatch (written a) hdr bits)))"
  using assms(1)
  by (simp add: dispatch_CAPABILITIES iteration_reads sent_append checkConnection_sent
      readAndDispatch_sent)

theorem capabilities_request_answered_witness:
  "entityClass capabilities_request = CAPABILITIES_SERVICE \<and>
   isRequestClass (messageClass capabilities_request) \<and>
   example_decode (messageBuffer (data_in [0, 1])) = Some capabilities_request \<and>
   sent (fst (iteration example_decode (data_in [0, 1]) example_bits)) =
     [\<lparr>header = \<lparr>CommonHeader.sequence = 1, elementId = 411,
                 messageClass = RESPONSE_SUCCESS, entityClass = CAPABILITIES_SERVICE\<rparr>,
       tlvs = [TLVCell 5 25 1850 19850]\<rparr>]"
proof -
  have c: "entityClass capabilities_request = CAPABILITIES_SERVICE"
    and r: "isRequestClass (messageClass capabilities_request)"
    by (simp_all add: capabilities_request_def)
  have d: "example_decode (messageBuffer (data_in [0, 1])) = Some capabilities_request"
    by (simp add: data_in_def capabilities_request_def)
  from capabilities_request_answered
    [OF c r, of 32 example_bits "data_in [0, 1]" example_decode] c r d
  show ?thesis
    by (simp add: data_in_def example_bits_def)
qed

text \<open>
  Claim C4, as the code has it. Dispatch is keyed by the entity class alone: the message
  class of the inbound message is not consulted. A message whose entity class is neither
  \<open>HELLO_SERVICE\<close> nor \<open>CAPABILITIES_SERVICE\<close> is treated as unexpected, whatever
  its message class: one line is logged on \<open>std::cerr\<close>, no reply is sent and the
  agent's attributes are unchanged. A \<open>HELLO_SERVICE\<close> message of any class (also a
  request) is logged as a discarded reply, with no reply sent and nothing changed. A
  \<open>CAPABILITIES_SERVICE\<close> message of any class (also a response) is answered: one
  message is written and the sequence number is incremented.
\<close>

theorem dispatch_by_entity_class:
  "dispatch len (hdr\<lparr>messageClass := c\<rparr>) bits = dispatch len hdr bits \<and>
   (entityClass hdr \<noteq> HELLO_SERVICE \<and> entityClass hdr \<noteq> CAPABILITIES_SERVICE \<longrightarrow>
      dispatch len hdr bits =
        ([std_cerr [Str (''AGENT: *** got unexpected message class'' @ nl)]], bits)) \<and>
   (entityClass hdr = HELLO_SERVICE \<longrightarrow>
      dispatch len hdr bits =
        ([std_cout [Str (''AGENT: got a REPLY for HELLO_SERVICE (discarded)'' @ nl)]], bits)) \<and>
   (entityClass hdr = CAPABILITIES_SERVICE \<longrightarrow>
      length (sent (fst (dispatch len hdr bits))) = 1 \<and>
      snd (dispatch len hdr bits) = bits\<lparr>PrivateBits.sequence := PrivateBits.sequence bits + 1\<rparr>)"
proof -
  have "dispatch len (hdr\<lparr>messageClass := c\<rparr>) bits = dispatch len hdr bits"
    by (simp add: dispatch_def)
  then show ?thesis
    by (simp add: dispatch_OTHER dispatch_HELLO dispatch_CAPABILITIES)
qed

theorem dispatch_by_entity_class_witness:
  "entityClass unknown_request \<noteq> HELLO_SERVICE \<and>
   entityClass unknown_request \<noteq> CAPABILITIES_SERVICE \<and>
   dispatch 32 unknown_request example_bits
     = ([std_cerr [Str (''AGENT: *** got unexpected message class'' @ nl)]], example_bits) \<and>
   entityClass hello_request = HELLO_SERVICE \<and>
   dispatch 32 hello_request example_bits
     = ([std_cout [Str (''AGENT: got a REPLY for HELLO_SERVICE (discarded)'' @ nl)]], example_bits) \<and>
   entityClass capabilities_response = CAPABILITIES_SERVICE \<and>
   PrivateBits.sequence (snd (dispatch 32 capabilities_response example_bits)) = 2"
  using dispatch_by_entity_class
      [where len = 32 and hdr = unknown_request and c = REQUEST_SET and bits = example_bits]
    dispatch_by_entity_class
      [where len = 32 and hdr = hello_request and c = REQUEST_SET and bits = example_bits]
    dispatch_by_entity_class
      [where len = 32 and hdr = capabilities_response and c = REQUEST_SET and bits = example_bits]
  by (simp add: unknown_request_def hello_request_def capabilities_response_def example_bits_def)

text \<open>
  The claim C4 as stated, keyed by the pair of message class and entity class, fails for
  a \<open>CAPABILITIES_SERVICE\<close> message of class \<open>RESPONSE_SUCCESS\<close>: the pair is neither
  (response, \<open>HELLO_SERVICE\<close>) nor (request, \<open>CAPABILITIES_SERVICE\<close>), yet a reply is
  written and the sequence number goes from 1 to 2.
\<close>

theorem response_class_capabilities_answered:
  "\<not> (isResponseClass (messageClass capabilities_response) \<and>
        entityClass capabilities_response = HELLO_SERVICE) \<and>
   \<not> (isRequestClass (messageClass capabilities_response) \<and>
        entityClass capabilities_response = CAPABILITIES_SERVICE) \<and>
   sent (fst (dispatch 32 capabilities_response example_bits)) =
     [\<lparr>header = \<lparr>CommonHeader.sequence = 1, elementId = 411,
                 messageClass = RESPONSE_SUCCESS, entityClass = CAPABILITIES_SERVICE\<rparr>,
       tlvs = [TLVCell 5 25 1850 19850]\<rparr>] \<and>
   PrivateBits.sequence example_bits = 1 \<and>
   PrivateBits.sequence (snd (dispatch 32 capabilities_response example_bits)) = 2"
  by (simp add: capabilities_response_def example_bits_def dispatch_def fillHeader_def
      MessageEncoder_def add_def Let_def)

text \<open>
  Claim C9. Dispatching a decoded inbound message writes at most one message; the only
  calls on the transport are these writes (no socket is opened, no address, port or delay
  is set); the agent's attributes after dispatch are those before it except for the
  sequence number, so the cell description, the eNodeB identifier and the configured
  address, port and delay are unchanged; and the sequence number changes only through
  \<open>fillHeader\<close>, exactly when a message is written.
\<close>

theorem dispatch_frame:
  "length (sent (fst (dispatch len hdr bits))) \<le> 1 \<and>
   filter (\<lambda>e. \<not> isLog e) (fst (dispatch len hdr bits)) =
     map (\<lambda>m. io_writeMessage m len) (sent (fst (dispatch len hdr bits))) \<and>
   snd (dispatch len hdr bits) =
     bits\<lparr>PrivateBits.sequence := PrivateBits.sequence (snd (dispatch len hdr bits))\<rparr> \<and>
   (snd (dispatch len hdr bits) = bits \<and> sent (fst (dispatch len hdr bits)) = [] \<or>
    snd (dispatch len hdr bits) = snd (fillHeader (header MessageEncoder) bits) \<and>
    length (sent (fst (dispatch len hdr bits))) = 1)"
  by (cases "entityClass hdr")
     (simp_all add: dispatch_def fillHeader_def MessageEncoder_def add_def Let_def)

theorem dispatch_frame_witness:
  "snd (dispatch 32 capabilities_request example_bits) = example_bits\<lparr>PrivateBits.sequence := 2\<rparr> \<and>
   length (sent (fst (dispatch 32 capabilities_request example_bits))) = 1 \<and>
   snd (dispatch 32 hello_request example_bits) = example_bits"
  using dispatch_frame [of 32 capabilities_request example_bits]
    dispatch_frame [of 32 hello_request example_bits]
  by (simp add: dispatch_def fillHeader_def MessageEncoder_def add_def Let_def
      capabilities_request_def hello_request_def example_bits_def)

subsection \<open>The loop\<close>

text \<open>
  Claim C3. In every iteration that performs the periodic tasks (an idle tick) and in
  which the transport reports the connection open at the check before sending, the agent
  writes exactly one message: message class \<open>REQUEST_SET\<close>, entity class
  \<open>HELLO_SERVICE\<close>, with exactly one TLV, whose payload is the delay in milliseconds that
  \<open>io.delay()\<close> returns in this iteration. This holds for every state of the agent:
  nothing that was sent before suppresses it.
\<close>

theorem heartbeat_on_idle_tick:
  assumes "fst (checkConnection a)"
    and "\<not> closedAtSend a"
  shows "sent (fst (iteration decode a bits)) =
           [\<lparr>header = \<lparr>CommonHeader.sequence = PrivateBits.sequence bits,
                       elementId = ucast (enbId bits),
                       messageClass = REQUEST_SET, entityClass = HELLO_SERVICE\<rparr>,
             tlvs = [TLVPeriodicityMs (currentDelay a)]\<rparr>]
         \<and> calls (io_delay (currentDelay a)) (fst (iteration decode a bits)) = 1"
proof -
  have "calls (io_delay (currentDelay a)) (snd (snd (checkConnection a))) = 0"
    by (simp add: checkConnection_def calls_def Let_def)
  moreover have "calls (io_delay (currentDelay a)) (fst (periodicTasks a bits)) = 1"
    using assms(2) by (simp add: periodicTasks_def calls_def Let_def split_def)
  ultimately show ?thesis
    using assms by (simp add: iteration_idle_open iteration_calls checkConnection_flags)
qed

theorem heartbeat_on_idle_tick_witness:
  "fst (checkConnection idle_open) \<and> \<not> closedAtSend idle_open \<and>
   sent (fst (iteration example_decode idle_open example_bits)) =
     [\<lparr>header = \<lparr>CommonHeader.sequence = 1, elementId = 411,
                 messageClass = REQUEST_SET, entityClass = HELLO_SERVICE\<rparr>,
       tlvs = [TLVPeriodicityMs 2000]\<rparr>]"
proof -
  have t: "fst (checkConnection idle_open)" and s: "\<not> closedAtSend idle_open"
    by (simp_all add: checkConnection_def idle_open_def)
  from heartbeat_on_idle_tick [OF t s, of example_decode example_bits] t s
  show ?thesis
    by (simp add: example_bits_def idle_open_def)
qed

text \<open>
  Claim C5, as the code has it. In every iteration in which the transport first reports
  the connection closed, the agent calls \<open>openSocket\<close> once and then checks the connection
  again. If it is still reported closed, the agent sleeps once and the iteration is a
  periodic tick. If it is now reported open, the agent does not sleep: it polls for data
  once, and the iteration is a periodic tick exactly when no data is available.
\<close>

theorem closed_at_entry:
  assumes "closedAtEntry a"
  shows "take 4 (fst (iteration decode a bits)) =
           [io_isConnectionClosed True, io_openSocket, io_isConnectionClosed (closedAtRetest a),
            if closedAtRetest a then io_sleep else io_isDataAvailable (dataAvailable a)] \<and>
         calls io_openSocket (fst (iteration decode a bits)) = 1 \<and>
         (closedAtRetest a \<longrightarrow>
            calls io_sleep (fst (iteration decode a bits)) = 1 \<and> fst (checkConnection a)) \<and>
         (\<not> closedAtRetest a \<longrightarrow>
            calls io_sleep (fst (iteration decode a bits)) = 0 \<and>
            calls (io_isDataAvailable (dataAvailable a)) (fst (iteration decode a bits)) = 1 \<and>
            fst (checkConnection a) = (\<not> dataAvailable a))"
proof -
  have checked: "snd (snd (checkConnection a)) =
      [io_isConnectionClosed True, io_openSocket, io_isConnectionClosed (closedAtRetest a),
       if closedAtRetest a then io_sleep else io_isDataAvailable (dataAvailable a)]"
    using assms by (simp add: checkConnection_def Let_def)
  have first: "take 4 (fst (iteration decode a bits)) = snd (snd (checkConnection a))"
    by (simp add: iteration_unfold checked)
  have "calls io_openSocket (snd (snd (checkConnection a))) = 1"
    using assms by (simp add: checkConnection_def calls_def Let_def)
  moreover have "calls io_sleep (snd (snd (checkConnection a))) = (if closedAtRetest a then 1 else 0)"
    by (simp add: checkConnection_def calls_def Let_def)
  moreover have "\<not> closedAtRetest a \<Longrightarrow>
      calls (io_isDataAvailable (dataAvailable a)) (snd (snd (checkConnection a))) = 1"
    by (simp add: checkConnection_def calls_def Let_def)
  moreover have "fst (checkConnection a) = (closedAtRetest a \<or> \<not> dataAvailable a)"
    by (simp add: checkConnection_def Let_def)
  ultimately show ?thesis
    unfolding first checked [symmetric]
    by (simp add: iteration_calls readAndDispatch_calls periodicTasks_calls)
qed

theorem closed_at_entry_witness:
  "closedAtEntry all_closed \<and> closedAtRetest all_closed \<and>
   calls io_openSocket (fst (iteration example_decode all_closed example_bits)) = 1 \<and>
   calls io_sleep (fst (iteration example_decode all_closed example_bits)) = 1 \<and>
   fst (checkConnection all_closed)"
proof -
  have e: "closedAtEntry all_closed" and r: "closedAtRetest all_closed"
    by (simp_all add: all_closed_def)
  from closed_at_entry [OF e, of example_decode example_bits] e r
  show ?thesis by simp
qed

text \<open>
  The claim C5 as stated, with a pause and a periodic tick whatever the outcome of the
  connection attempt, fails when the attempt succeeds and data is available: the
  iteration calls \<open>openSocket\<close> once, never sleeps and is not a periodic tick.
\<close>

theorem no_sleep_after_reconnect:
  "closedAtEntry reconnected_data \<and>
   calls io_openSocket (fst (iteration example_decode reconnected_data example_bits)) = 1 \<and>
   calls io_sleep (fst (iteration example_decode reconnected_data example_bits)) = 0 \<and>
   \<not> fst (checkConnection reconnected_data)"
  by (simp add: reconnected_data_def iteration_def checkConnection_def readAndDispatch_def
      dispatch_def fillHeader_def MessageEncoder_def add_def calls_def Let_def)

text \<open>
  Claim C6, as the code has it. In every iteration that gets to the read: if
  \<open>readMessage\<close> returns an empty buffer, or a buffer for which the decoder returns and
  reports a failure, then the message is discarded: the iteration throws nothing, the
  buffer is read once, no message is written, nothing is logged on \<open>std::cerr\<close>, the
  agent's attributes (sequence number included) are unchanged, and the loop goes on with
  the next iteration from the same state. The loop has no handler for one message: if
  \<open>readMessage\<close> or the decoder throws, the exception leaves the iteration and reaches
  the only handler, around the whole loop, which logs it, and the loop ends, after any
  number of earlier iterations; no message is written and the attributes are unchanged
  in this case too.
\<close>

theorem undecodable_discarded:
  assumes "reachesRead t a"
  shows "(t readMessage_167 = None \<and>
            (messageBuffer a = [] \<or>
             t MessageDecoder_174 = None \<and> decode (messageBuffer a) = None) \<longrightarrow>
          iteration_exn decode t a bits = (fst (iteration decode a bits), bits, None) \<and>
          received (fst (iteration decode a bits)) = [messageBuffer a] \<and>
          sent (fst (iteration decode a bits)) = [] \<and>
          errors (fst (iteration decode a bits)) = [] \<and>
          iterations_exn decode ((t, a) # rest) bits =
            (fst (iteration decode a bits) @ fst (iterations_exn decode rest bits),
             snd (iterations_exn decode rest bits))) \<and>
         (t readMessage_167 = Some what \<longrightarrow>
          iteration_exn decode t a bits = (snd (snd (checkConnection a)), bits, Some what) \<and>
          mainLoop_exn decode no_throw (map (Pair no_throw) as @ (t, a) # rest) bits =
            (fst (mainLoop decode as bits) @ snd (snd (checkConnection a)) @ [caught what],
             snd (mainLoop decode as bits), True)) \<and>
         (t readMessage_167 = None \<and> messageBuffer a \<noteq> [] \<and>
            t MessageDecoder_174 = Some what \<longrightarrow>
          iteration_exn decode t a bits =
            (snd (snd (checkConnection a)) @
               [io_readMessage (messageBuffer a),
                std_cout [Str (''AGENT: received message'' @ nl), Buf (messageBuffer a)]],
             bits, Some what) \<and>
          mainLoop_exn decode no_throw (map (Pair no_throw) as @ (t, a) # rest) bits =
            (fst (mainLoop decode as bits) @ snd (snd (checkConnection a)) @
               [io_readMessage (messageBuffer a),
                std_cout [Str (''AGENT: received message'' @ nl), Buf (messageBuffer a)],
                caught what],
             snd (mainLoop decode as bits), True))"
proof -
  note it = iteration_exn_reachesRead [OF assms]
  from assms have open_data: "\<not> closedAtRetest a" "dataAvailable a"
    by (simp_all add: reachesRead_def)
  have discard: "iteration_exn decode t a bits = (fst (iteration decode a bits), bits, None) \<and>
      received (fst (iteration decode a bits)) = [messageBuffer a] \<and>
      sent (fst (iteration decode a bits)) = [] \<and>
      errors (fst (iteration decode a bits)) = [] \<and>
      iterations_exn decode ((t, a) # rest) bits =
        (fst (iteration decode a bits) @ fst (iterations_exn decode rest bits),
         snd (iterations_exn decode rest bits))"
    if r: "t readMessage_167 = None"
      and d: "messageBuffer a = [] \<or> t MessageDecoder_174 = None \<and> decode (messageBuffer a) = None"
  proof -
    have i: "iteration_exn decode t a bits = (fst (iteration decode a bits), bits, None)"
      using r d open_data
      by (auto simp: it iteration_reads readAndDispatch_exn_def readAndDispatch_def exn_simps)
    have rc: "received (fst (iteration decode a bits)) = [messageBuffer a]"
      using open_data
      by (simp add: iteration_reads received_append checkConnection_received
          readAndDispatch_received)
    have s: "sent (fst (iteration decode a bits)) = []"
      using d open_data
      by (auto simp: iteration_reads sent_append checkConnection_sent readAndDispatch_sent)
    have e: "errors (fst (iteration decode a bits)) = []"
      using d open_data
      by (auto simp: iteration_reads errors_append checkConnection_def readAndDispatch_def Let_def)
    from i rc s e show ?thesis
      by (simp add: exn_simps)
  qed
  have read_throws: "iteration_exn decode t a bits = (snd (snd (checkConnection a)), bits, Some what)"
    if "t readMessage_167 = Some what" for bits
    using that by (simp add: it readAndDispatch_exn_def exn_simps)
  have decoder_throws: "iteration_exn decode t a bits =
      (snd (snd (checkConnection a)) @
         [io_readMessage (messageBuffer a),
          std_cout [Str (''AGENT: received message'' @ nl), Buf (messageBuffer a)]],
       bits, Some what)"
    if "t readMessage_167 = None" "messageBuffer a \<noteq> []" "t MessageDecoder_174 = Some what"
    for bits
    using that by (simp add: it readAndDispatch_exn_def exn_simps)
  have B: "iteration_exn decode t a bits = (snd (snd (checkConnection a)), bits, Some what) \<and>
      mainLoop_exn decode no_throw (map (Pair no_throw) as @ (t, a) # rest) bits =
        (fst (mainLoop decode as bits) @ snd (snd (checkConnection a)) @ [caught what],
         snd (mainLoop decode as bits), True)"
    if r: "t readMessage_167 = Some what"
    using read_throws [OF r, of bits]
      mainLoop_exn_thrown [OF read_throws [OF r, of "snd (mainLoop decode as bits)"], of rest]
    by simp
  have C: "iteration_exn decode t a bits =
        (snd (snd (checkConnection a)) @
           [io_readMessage (messageBuffer a),
            std_cout [Str (''AGENT: received message'' @ nl), Buf (messageBuffer a)]],
         bits, Some what) \<and>
      mainLoop_exn decode no_throw (map (Pair no_throw) as @ (t, a) # rest) bits =
        (fst (mainLoop decode as bits) @ snd (snd (checkConnection a)) @
           [io_readMessage (messageBuffer a),
            std_cout [Str (''AGENT: received message'' @ nl), Buf (messageBuffer a)],
            caught what],
         snd (mainLoop decode as bits), True)"
    if r: "t readMessage_167 = None" and n: "messageBuffer a \<noteq> []"
      and d: "t MessageDecoder_174 = Some what"
    using decoder_throws [OF r n d, of bits]
      mainLoop_exn_thrown [OF decoder_throws [OF r n d, of "snd (mainLoop decode as bits)"], of rest]
    by simp
  from discard B C show ?thesis
    by blast
qed

theorem undecodable_discarded_witness:
  "reachesRead no_throw (data_in [7]) \<and> no_throw readMessage_167 = None \<and>
   no_throw MessageDecoder_174 = None \<and> example_decode (messageBuffer (data_in [7])) = None \<and>
   iteration_exn example_decode no_throw (data_in [7]) example_bits =
     ([io_isConnectionClosed False, io_isConnectionClosed False, io_isDataAvailable True,
       io_readMessage [7], std_cout [Str (''AGENT: received message'' @ nl), Buf [7]]],
      example_bits, None) \<and>
   reachesRead decoder_throws (data_in [7]) \<and> decoder_throws readMessage_167 = None \<and>
   decoder_throws MessageDecoder_174 = Some ''malformed message'' \<and>
   iteration_exn example_decode decoder_throws (data_in [7]) example_bits =
     ([io_isConnectionClosed False, io_isConnectionClosed False, io_isDataAvailable True,
       io_readMessage [7], std_cout [Str (''AGENT: received message'' @ nl), Buf [7]]],
      example_bits, Some ''malformed message'')"
proof -
  have r1: "reachesRead no_throw (data_in [7])" and r2: "reachesRead decoder_throws (data_in [7])"
    by (simp_all add: reachesRead_def no_throw_def decoder_throws_def data_in_def)
  have i: "fst (iteration example_decode (data_in [7]) example_bits) =
     [io_isConnectionClosed False, io_isConnectionClosed False, io_isDataAvailable True,
      io_readMessage [7], std_cout [Str (''AGENT: received message'' @ nl), Buf [7]]]"
    and c: "snd (snd (checkConnection (data_in [7]))) =
     [io_isConnectionClosed False, io_isConnectionClosed False, io_isDataAvailable True]"
    by (simp_all add: iteration_def checkConnection_def readAndDispatch_def data_in_def Let_def)
  from undecodable_discarded
      [where t = no_throw and a = "data_in [7]" and decode = example_decode
         and bits = example_bits and rest = "[]" and as = "[]" and what = "''x''", OF r1]
    undecodable_discarded
      [where t = decoder_throws and a = "data_in [7]" and decode = example_decode
         and bits = example_bits and rest = "[]" and as = "[]"
         and what = "''malformed message''", OF r2]
    r1 r2 i c
  show ?thesis
    by (simp add: no_throw_def decoder_throws_def data_in_def)
qed

text \<open>
  The claim C6 as stated, with no exception leaving the handling of one message and the
  loop going on, fails when the decoding of a message fails with an exception: the
  exception is caught by the handler of the loop, and the iteration that would follow
  (an idle tick sending a HELLO request) is not run.
\<close>

theorem decoder_exception_ends_loop:
  "reachesRead decoder_throws (data_in [7]) \<and> decoder_throws readMessage_167 = None \<and>
   messageBuffer (data_in [7]) \<noteq> [] \<and>
   decoder_throws MessageDecoder_174 = Some ''malformed message'' \<and>
   mainLoop_exn example_decode no_throw [(decoder_throws, data_in [7]), (no_throw, idle_open)]
     example_bits =
     ([io_address 0x7F000001, io_port 2210, io_setDelay 2000,
       io_makeMessageBuffer, io_makeMessageBuffer,
       io_isConnectionClosed False, io_isConnectionClosed False, io_isDataAvailable True,
       io_readMessage [7], std_cout [Str (''AGENT: received message'' @ nl), Buf [7]],
       std_cerr [Str ''AGENT: *** caught exception in main agent loop: '',
                 Str ''malformed message'', Str nl]],
      example_bits, True)"
proof -
  have it: "iteration_exn example_decode decoder_throws (data_in [7]) example_bits =
     ([io_isConnectionClosed False, io_isConnectionClosed False, io_isDataAvailable True,
       io_readMessage [7], std_cout [Str (''AGENT: received message'' @ nl), Buf [7]]],
      example_bits, Some ''malformed message'')"
    by (simp add: iteration_exn_def readAndDispatch_exn_def checkConnection_def data_in_def
        decoder_throws_def exn_simps)
  have "mainLoop_exn example_decode no_throw
      [(decoder_throws, data_in [7]), (no_throw, idle_open)] example_bits =
     ([io_address 0x7F000001, io_port 2210, io_setDelay 2000,
       io_makeMessageBuffer, io_makeMessageBuffer,
       io_isConnectionClosed False, io_isConnectionClosed False, io_isDataAvailable True,
       io_readMessage [7], std_cout [Str (''AGENT: received message'' @ nl), Buf [7]],
       std_cerr [Str ''AGENT: *** caught exception in main agent loop: '',
                 Str ''malformed message'', Str nl]],
      example_bits, True)"
    by (simp add: mainLoop_exn_def it exn_simps) (simp add: example_bits_def)
  then show ?thesis
    by (simp add: reachesRead_def decoder_throws_def data_in_def)
qed

text \<open>
  Claim C7. If the transport reports the connection closed at every check, then every
  iteration of the loop has the same trace, with exactly one call of \<open>openSocket\<close> and
  exactly one call of \<open>sleep\<close>; a run of any number of iterations calls each of them
  once per iteration, and never calls \<open>readMessage\<close> or \<open>writeMessage\<close>.
\<close>

theorem closed_transport:
  assumes "list_all reportsClosed as"
  shows "(\<forall>a\<in>set as. iteration decode a bits = (closed_trace, bits)) \<and>
         calls io_openSocket closed_trace = 1 \<and> calls io_sleep closed_trace = 1 \<and>
         received closed_trace = [] \<and> sent closed_trace = [] \<and>
         fst (iterations decode as bits) = concat (replicate (length as) closed_trace) \<and>
         calls io_openSocket (fst (mainLoop decode as bits)) = length as \<and>
         calls io_sleep (fst (mainLoop decode as bits)) = length as \<and>
         received (fst (mainLoop decode as bits)) = [] \<and>
         sent (fst (mainLoop decode as bits)) = []"
proof -
  have each: "\<forall>a\<in>set as. iteration decode a bits = (closed_trace, bits)"
    using assms by (simp add: list_all_iff iteration_closed)
  have o: "calls io_openSocket closed_trace = 1" and s: "calls io_sleep closed_trace = 1"
    and r: "received closed_trace = []" and w: "sent closed_trace = []"
    by (simp_all add: closed_trace_def calls_def)
  have tr: "fst (iterations decode as bits) = concat (replicate (length as) closed_trace)"
    using iterations_closed [OF assms, of decode bits] by simp
  have "calls io_openSocket (fst (mainLoop decode as bits)) = length as"
    and "calls io_sleep (fst (mainLoop decode as bits)) = length as"
    and "received (fst (mainLoop decode as bits)) = []"
    and "sent (fst (mainLoop decode as bits)) = []"
    unfolding mainLoop_unfold fst_conv tr calls_append received_append sent_append
    by (simp_all add: calls_concat_replicate sent_concat_replicate received_concat_replicate
        o s r w)
       (simp_all add: calls_def)
  with each o s r w tr show ?thesis by simp
qed

theorem closed_transport_witness:
  "list_all reportsClosed [all_closed, all_closed] \<and>
   iteration example_decode all_closed example_bits = (closed_trace, example_bits) \<and>
   calls io_openSocket (fst (mainLoop example_decode [all_closed, all_closed] example_bits)) = 2 \<and>
   calls io_sleep (fst (mainLoop example_decode [all_closed, all_closed] example_bits)) = 2 \<and>
   received (fst (mainLoop example_decode [all_closed, all_closed] example_bits)) = [] \<and>
   sent (fst (mainLoop example_decode [all_closed, all_closed] example_bits)) = []"
proof -
  have c: "list_all reportsClosed [all_closed, all_closed]"
    by (simp add: reportsClosed_def all_closed_def)
  from closed_transport [OF c, of example_decode example_bits] c
  show ?thesis by simp
qed

text \<open>
  Claim C10. In every iteration in which the transport reports data available, the
  iteration is not a periodic tick, \<open>io.delay()\<close> is not called and no HELLO request is
  written, whatever the message read is. So a run of any number of such iterations
  writes no HELLO request, and when all the messages read are empty, undecodable or of an
  entity class that gets no reply, it writes nothing at all.
\<close>

theorem data_suppresses_heartbeat:
  assumes "list_all reportsData as"
  shows "(\<forall>a\<in>set as. \<forall>b.
            \<not> fst (checkConnection a) \<and>
            filter isHeartbeat (sent (fst (iteration decode a b))) = [] \<and>
            calls (io_delay (currentDelay a)) (fst (iteration decode a b)) = 0) \<and>
         filter isHeartbeat (sent (fst (mainLoop decode as bits))) = [] \<and>
         (list_all (discarded decode) as \<longrightarrow>
            sent (fst (mainLoop decode as bits)) = [] \<and> snd (mainLoop decode as bits) = bits)"
proof -
  have each: "\<not> fst (checkConnection a) \<and>
        filter isHeartbeat (sent (fst (iteration decode a b))) = [] \<and>
        calls (io_delay (currentDelay a)) (fst (iteration decode a b)) = 0"
    if "reportsData a" for a b
  proof -
    from that have "\<not> fst (checkConnection a)" and "fst (snd (checkConnection a))"
      and "calls (io_delay (currentDelay a)) (snd (snd (checkConnection a))) = 0"
      by (simp_all add: reportsData_def checkConnection_def calls_def Let_def)
    with that show ?thesis
      by (simp add: iteration_data_no_heartbeat iteration_calls readAndDispatch_calls)
  qed
  have run: "filter isHeartbeat (sent (fst (mainLoop decode as bits))) = []"
    using iterations_data_no_heartbeat [OF assms] by (simp add: mainLoop_sent)
  have "sent (fst (mainLoop decode as bits)) = [] \<and> snd (mainLoop decode as bits) = bits"
    if "list_all (discarded decode) as"
    using iterations_discarded [OF assms that] by (simp add: mainLoop_sent mainLoop_snd)
  with each run assms show ?thesis
    by (simp add: list_all_iff)
qed

theorem data_suppresses_heartbeat_witness:
  "list_all reportsData [data_in [7], data_in [], data_in [1, 9], data_in [0, 1]] \<and>
   list_all (discarded example_decode) [data_in [7], data_in [], data_in [1, 9]] \<and>
   filter isHeartbeat (sent (fst (mainLoop example_decode
      [data_in [7], data_in [], data_in [1, 9], data_in [0, 1]] example_bits))) = [] \<and>
   sent (fst (mainLoop example_decode [data_in [7], data_in [], data_in [1, 9]] example_bits)) = []"
proof -
  have d4: "list_all reportsData [data_in [7], data_in [], data_in [1, 9], data_in [0, 1]]"
    and d3: "list_all reportsData [data_in [7], data_in [], data_in [1, 9]]"
    by (simp_all add: reportsData_def data_in_def)
  have m: "list_all (discarded example_decode) [data_in [7], data_in [], data_in [1, 9]]"
    by (simp add: discarded_def data_in_def)
  from data_suppresses_heartbeat [OF d4, of example_decode example_bits]
    data_suppresses_heartbeat [OF d3, of example_decode example_bits] d4 m
  show ?thesis by simp
qed

subsection \<open>Initialisation\<close>




end
